theory Spec2Isabelle
  imports Complex_Main "HOL-Library.Word"
begin

section \<open>Thermistor.h: raw ADC sample to resistance and temperature\<close>

text \<open>
  The C++ type \<open>double\<close> is read as \<open>real\<close>: every operation of the source is the exact
  operation on real numbers, \<open>log\<close> is the natural logarithm \<open>ln\<close>. Rounding, infinities
  and NaN of IEEE arithmetic are outside this model.
\<close>

record ThermistorReading =
  rd_adc :: real
  rd_resistance :: real
  rd_celsius :: real

record Thermistor =
  th_rs :: real
  th_r0 :: real
  th_t0 :: real
  th_b :: real

definition th_k :: real where
  "th_k = 273.15"

definition adcToResistance :: "Thermistor \<Rightarrow> real \<Rightarrow> real" where
  "adcToResistance th adc = th_rs th / ((1023 / adc) - 1)"

definition resistanceToCelsius :: "Thermistor \<Rightarrow> real \<Rightarrow> real" where
  "resistanceToCelsius th r =
     (let c = r / th_r0 th;
          c = ln c;
          c = c / th_b th;
          c = c + 1 / th_t0 th;
          c = 1 / c;
          c = c - th_k
      in c)"

definition Thermistor_init :: "Thermistor \<Rightarrow> real \<Rightarrow> real \<Rightarrow> real \<Rightarrow> real \<Rightarrow> Thermistor" where
  "Thermistor_init th rs r0 t0 b =
     th\<lparr>th_rs := rs, th_r0 := r0, th_t0 := t0 + th_k, th_b := b\<rparr>"

definition toReading :: "Thermistor \<Rightarrow> real \<Rightarrow> ThermistorReading" where
  "toReading th adc =
     (let resistance = adcToResistance th adc;
          celsius = resistanceToCelsius th resistance
      in \<lparr>rd_adc = adc, rd_resistance = resistance, rd_celsius = celsius\<rparr>)"


section \<open>CloudStorage.h: remote configuration and wraparound log\<close>

subsection \<open>Machine types\<close>

text \<open>
  On the target \<open>int\<close> and \<open>uint32_t\<close> are 32 bits wide. Both are 32-bit words: an
  \<open>int\<close> is the word of its two's complement representation and is read with \<open>sint\<close>, a
  \<open>uint32_t\<close> is read with \<open>unat\<close>. Converting an \<open>int\<close> to \<open>uint32_t\<close> keeps the word.
  \<open>float\<close> is read as \<open>real\<close>, as \<open>double\<close> above; configuration values are only stored
  and copied here.
\<close>

type_synonym int32 = "32 word"
type_synonym uint32 = "32 word"
type_synonym time_t = "32 word"

subsection \<open>The collaborators: Firebase client, Device, Serial, delay\<close>

text \<open>
  The JSON object built by \<open>log\<close>: the keys \<open>time\<close>, \<open>0\<close>, \<open>1\<close> and \<open>active\<close>.
\<close>

record JsonObject =
  json_time :: time_t
  json_0 :: real
  json_1 :: real
  json_active :: bool

text \<open>
  A \<open>FirebaseObject\<close> is known through its interface only. Each accessor returns a value
  of its type; the second component tells whether the read succeeded: \<open>None\<close> when the
  value could be read, \<open>Some msg\<close> when it could not, with the value that the accessor
  returns in that case. This outcome stays with the object. \<open>fo_json\<close> is the text that
  \<open>getJsonVariant().printTo\<close> writes.
\<close>

record FirebaseObject =
  fo_json :: string
  fo_getInt :: "string \<Rightarrow> int32 \<times> string option"
  fo_getFloat :: "string \<Rightarrow> real \<times> string option"
  fo_getString :: "string \<Rightarrow> string \<times> string option"

text \<open>
  The Firebase client. \<open>fb_error\<close> is what \<open>Firebase.failed()\<close> and \<open>Firebase.error()\<close>
  report: the status of the last call made on the client. The remote side is a script: the
  reply to a request depends on how many requests were served before it and on the
  request itself.
\<close>

record Firebase =
  fb_error :: "string option"
  fb_served :: nat
  fb_begin_reply :: "nat \<Rightarrow> string \<Rightarrow> string \<Rightarrow> string option"
  fb_get_reply :: "nat \<Rightarrow> string \<Rightarrow> FirebaseObject \<times> string option"
  fb_set_reply :: "nat \<Rightarrow> string \<Rightarrow> JsonObject \<Rightarrow> string option"

text \<open>Calls that leave the component, in the order they are made.\<close>

datatype call =
    BlinkLed nat
  | SetLed bool
  | FirebaseBegin string string
  | FirebaseGet string
  | FirebaseSet string JsonObject
  | Delay nat

text \<open>What is written to the serial monitor.\<close>

datatype printable =
    Str string
  | IntV int32
  | FloatV real
  | JsonV JsonObject
  | Newline

record World =
  firebase :: Firebase
  calls :: "call list"
  serial :: "printable list"

definition Serial_print :: "printable \<Rightarrow> World \<Rightarrow> World" where
  "Serial_print x w = w\<lparr>serial := serial w @ [x]\<rparr>"

definition Serial_println :: "printable \<Rightarrow> World \<Rightarrow> World" where
  "Serial_println x w = w\<lparr>serial := serial w @ [x, Newline]\<rparr>"

definition Serial_newline :: "World \<Rightarrow> World" where
  "Serial_newline w = w\<lparr>serial := serial w @ [Newline]\<rparr>"

definition blinkLed :: "nat \<Rightarrow> World \<Rightarrow> World" where
  "blinkLed ms w = w\<lparr>calls := calls w @ [BlinkLed ms]\<rparr>"

definition setLed :: "bool \<Rightarrow> World \<Rightarrow> World" where
  "setLed on w = w\<lparr>calls := calls w @ [SetLed on]\<rparr>"

definition delay :: "nat \<Rightarrow> World \<Rightarrow> World" where
  "delay ms w = w\<lparr>calls := calls w @ [Delay ms]\<rparr>"

definition Firebase_begin :: "string \<Rightarrow> string \<Rightarrow> World \<Rightarrow> World" where
  "Firebase_begin host auth w =
     (let fb = firebase w
      in w\<lparr>firebase := fb\<lparr>fb_error := fb_begin_reply fb (fb_served fb) host auth,
                             fb_served := fb_served fb + 1\<rparr>,
           calls := calls w @ [FirebaseBegin host auth]\<rparr>)"

definition Firebase_get :: "string \<Rightarrow> World \<Rightarrow> FirebaseObject \<times> World" where
  "Firebase_get path w =
     (let fb = firebase w;
          (obj, status) = fb_get_reply fb (fb_served fb) path
      in (obj, w\<lparr>firebase := fb\<lparr>fb_error := status, fb_served := fb_served fb + 1\<rparr>,
                  calls := calls w @ [FirebaseGet path]\<rparr>))"

definition Firebase_set :: "string \<Rightarrow> JsonObject \<Rightarrow> World \<Rightarrow> World" where
  "Firebase_set path obj w =
     (let fb = firebase w
      in w\<lparr>firebase := fb\<lparr>fb_error := fb_set_reply fb (fb_served fb) path obj,
                             fb_served := fb_served fb + 1\<rparr>,
           calls := calls w @ [FirebaseSet path obj]\<rparr>)"

subsection \<open>The component's state\<close>

record CloudStorage =
  series_resistor :: real
  resistance_at_0 :: real
  temperature_at_0 :: real
  b_coefficient :: real
  polling_milliseconds :: int32
  max_entries :: int32
  ntp_server :: string
  gmt_offset :: int32
  min_t_on :: real
  delta_t_on :: real
  delta_t_off :: real
  oversample :: int32
  current_entry :: uint32

text \<open>The member initialisers of the class.\<close>

definition CloudStorage_new :: CloudStorage where
  "CloudStorage_new =
     \<lparr>series_resistor = 8170,
      resistance_at_0 = 9555.55,
      temperature_at_0 = 25,
      b_coefficient = 3380,
      polling_milliseconds = 5 * 1000,
      max_entries = 0,
      ntp_server = ''pool.ntp.org'',
      gmt_offset = 0,
      min_t_on = 10,
      delta_t_on = 10,
      delta_t_off = 1,
      oversample = 16,
      current_entry = 0\<rparr>"

definition config_ref :: string where "config_ref = ''config''"
definition series_resistor_ref :: string where "series_resistor_ref = ''seriesResistor''"
definition resistance_at_0_ref :: string where "resistance_at_0_ref = ''resistanceAt0''"
definition temperature_at_0_ref :: string where "temperature_at_0_ref = ''temperatureAt0''"
definition b_coefficient_ref :: string where "b_coefficient_ref = ''bCoefficient''"
definition polling_milliseconds_ref :: string where "polling_milliseconds_ref = ''pollingMilliseconds''"
definition max_entries_ref :: string where "max_entries_ref = ''maxEntries''"
definition ntp_server_ref :: string where "ntp_server_ref = ''ntpServer''"
definition gmt_offset_ref :: string where "gmt_offset_ref = ''gmtOffset''"
definition min_t_on_ref :: string where "min_t_on_ref = ''minTOn''"
definition delta_t_on_ref :: string where "delta_t_on_ref = ''deltaTOn''"
definition delta_t_off_ref :: string where "delta_t_off_ref = ''deltaTOff''"
definition oversample_ref :: string where "oversample_ref = ''oversample''"
definition log_ref :: string where "log_ref = ''log''"

text \<open>The apostrophe that the diagnostic texts put around paths and messages.\<close>

definition apostrophe :: string where
  "apostrophe = [CHR 0x27]"

subsection \<open>Reading the configuration\<close>

text \<open>
  \<open>failed\<close>: false and silent when the last operation succeeded, otherwise it prints the
  failure and returns true.
\<close>

definition failed :: "World \<Rightarrow> bool \<times> World" where
  "failed w =
     (case fb_error (firebase w) of
        None \<Rightarrow> (False, w)
      | Some err \<Rightarrow>
          (let w = Serial_println (Str ''[FAILED]'') w;
               w = Serial_print (Str (''    (Firebase Error: '' @ apostrophe)) w;
               w = Serial_print (Str err) w;
               w = Serial_println (Str (apostrophe @ '')'')) w
           in (True, w)))"

text \<open>
  The thunks return what the object's accessor returns, and nothing else.
\<close>

definition Firebase_getInt :: "FirebaseObject \<Rightarrow> string \<Rightarrow> int32" where
  "Firebase_getInt obj path = fst (fo_getInt obj path)"

definition Firebase_getFloat :: "FirebaseObject \<Rightarrow> string \<Rightarrow> real" where
  "Firebase_getFloat obj path = fst (fo_getFloat obj path)"

definition Firebase_getString :: "FirebaseObject \<Rightarrow> string \<Rightarrow> string" where
  "Firebase_getString obj path = fst (fo_getString obj path)"

text \<open>
  \<open>maybeUpdate\<close> returns the outcome and the content of the referenced variable after the
  call. \<open>pr\<close> stands for the overload of \<open>Serial.println\<close> chosen for the type. The
  test after the read is \<open>failed\<close>, which asks the client.
\<close>

definition maybeUpdate ::
  "(FirebaseObject \<Rightarrow> string \<Rightarrow> 'a) \<Rightarrow> ('a \<Rightarrow> printable) \<Rightarrow>
   FirebaseObject \<Rightarrow> string \<Rightarrow> 'a \<Rightarrow> World \<Rightarrow> bool \<times> 'a \<times> World" where
  "maybeUpdate getFn pr obj path val w =
     (let w = Serial_print (Str (''  Accessing '' @ apostrophe)) w;
          w = Serial_print (Str path) w;
          w = Serial_print (Str (apostrophe @ '': '')) w;
          maybeNewValue = getFn obj path;
          (f, w) = failed w
      in if f then (False, val, w)
         else (let val = maybeNewValue;
                   w = Serial_println (pr val) w
               in (True, val, w)))"

definition maybeUpdateInt ::
  "FirebaseObject \<Rightarrow> string \<Rightarrow> int32 \<Rightarrow> World \<Rightarrow> bool \<times> int32 \<times> World" where
  "maybeUpdateInt obj path val w = maybeUpdate Firebase_getInt IntV obj path val w"

definition maybeUpdateFloat ::
  "FirebaseObject \<Rightarrow> string \<Rightarrow> real \<Rightarrow> World \<Rightarrow> bool \<times> real \<times> World" where
  "maybeUpdateFloat obj path val w = maybeUpdate Firebase_getFloat FloatV obj path val w"

definition maybeUpdateString ::
  "FirebaseObject \<Rightarrow> string \<Rightarrow> string \<Rightarrow> World \<Rightarrow> bool \<times> string \<times> World" where
  "maybeUpdateString obj path val w = maybeUpdate Firebase_getString Str obj path val w"

text \<open>
  \<open>update\<close> returns its result, the component after the call and the world after the
  call. \<open>success &= e\<close> evaluates \<open>e\<close> whatever \<open>success\<close> holds.
\<close>

definition update :: "CloudStorage \<Rightarrow> World \<Rightarrow> bool \<times> CloudStorage \<times> World" where
  "update s w =
     (let w = Serial_print (Str ''Updating config from Firebase: '') w;
          w = blinkLed 25 w;
          (configObj, w) = Firebase_get config_ref w;
          (f, w) = failed w
      in if f then (False, s, w)
         else
          (let w = Serial_print (Str (fo_json configObj)) w;
               w = Serial_newline w;
               success = True;
               (r, v, w) = maybeUpdateFloat configObj series_resistor_ref (series_resistor s) w;
               s = s\<lparr>series_resistor := v\<rparr>; success = (success \<and> r);
               (r, v, w) = maybeUpdateFloat configObj temperature_at_0_ref (temperature_at_0 s) w;
               s = s\<lparr>temperature_at_0 := v\<rparr>; success = (success \<and> r);
               (r, v, w) = maybeUpdateFloat configObj resistance_at_0_ref (resistance_at_0 s) w;
               s = s\<lparr>resistance_at_0 := v\<rparr>; success = (success \<and> r);
               (r, v, w) = maybeUpdateFloat configObj b_coefficient_ref (b_coefficient s) w;
               s = s\<lparr>b_coefficient := v\<rparr>; success = (success \<and> r);
               (r, v, w) = maybeUpdateInt configObj polling_milliseconds_ref (polling_milliseconds s) w;
               s = s\<lparr>polling_milliseconds := v\<rparr>; success = (success \<and> r);
               (r, v, w) = maybeUpdateInt configObj max_entries_ref (max_entries s) w;
               s = s\<lparr>max_entries := v\<rparr>; success = (success \<and> r);
               (r, v, w) = maybeUpdateString configObj ntp_server_ref (ntp_server s) w;
               s = s\<lparr>ntp_server := v\<rparr>; success = (success \<and> r);
               (r, v, w) = maybeUpdateInt configObj gmt_offset_ref (gmt_offset s) w;
               s = s\<lparr>gmt_offset := v\<rparr>; success = (success \<and> r);
               (r, v, w) = maybeUpdateFloat configObj delta_t_on_ref (delta_t_on s) w;
               s = s\<lparr>delta_t_on := v\<rparr>; success = (success \<and> r);
               (r, v, w) = maybeUpdateFloat configObj delta_t_off_ref (delta_t_off s) w;
               s = s\<lparr>delta_t_off := v\<rparr>; success = (success \<and> r);
               (r, v, w) = maybeUpdateFloat configObj min_t_on_ref (min_t_on s) w;
               s = s\<lparr>min_t_on := v\<rparr>; success = (success \<and> r);
               (r, v, w) = maybeUpdateInt configObj oversample_ref (oversample s) w;
               s = s\<lparr>oversample := v\<rparr>; success = (success \<and> r);
               w = setLed True w
           in (success, s, w)))"

subsection \<open>Connecting\<close>

text \<open>
  \<open>init\<close> is declared \<open>bool\<close> and its body has no \<open>return\<close> statement: control flows off
  the end of the function and the caller receives no defined value. The result is
  \<open>Some b\<close> for a returned \<open>b\<close> and \<open>None\<close> for none.
\<close>

definition CloudStorage_init ::
  "string \<Rightarrow> string \<Rightarrow> CloudStorage \<Rightarrow> World \<Rightarrow> bool option \<times> CloudStorage \<times> World" where
  "CloudStorage_init firebase_host firebase_auth s w =
     (let w = Serial_print (Str (''Conecting to Firebase '' @ apostrophe)) w;
          w = Serial_print (Str firebase_host) w;
          w = Serial_print (Str (apostrophe @ '': '')) w;
          w = Firebase_begin firebase_host firebase_auth w;
          (f, w) = failed w;
          w = (if \<not> f then Serial_println (Str ''[OK]'') w else w)
      in (None, s, w))"

subsection \<open>Logging\<close>

text \<open>\<open>String(unsigned)\<close>: the decimal digits, most significant first.\<close>

fun decimal :: "nat \<Rightarrow> string" where
  "decimal n =
     (if n < 10 then [char_of (48 + n)]
      else decimal (n div 10) @ [char_of (48 + n mod 10)])"

declare decimal.simps [simp del]

text \<open>
  An unsigned remainder by zero is not defined; on the target it stops the program.
\<close>

datatype fault = DivisionByZero

text \<open>
  The loop \<open>for (int i = 0; i < 3; i++)\<close> of \<open>log\<close>, from the value \<open>i\<close> of its counter
  on. The world is returned in every case, the component only when the call returns.
\<close>

function log_loop ::
  "string \<Rightarrow> JsonObject \<Rightarrow> nat \<Rightarrow> CloudStorage \<Rightarrow> World \<Rightarrow> (fault + CloudStorage) \<times> World" where
  "log_loop slotRef rootObj i s w =
     (if i < 3 then
        (let w = blinkLed 19 w;
             w = Firebase_set slotRef rootObj w;
             w = setLed True w;
             (f, w) = failed w
         in if \<not> f then
              (let w = Serial_print (JsonV rootObj) w;
                   w = Serial_newline w
               in if max_entries s = 0 then (Inl DivisionByZero, w)
                  else (Inr (s\<lparr>current_entry := (current_entry s + 1) mod max_entries s\<rparr>), w))
            else
              (let w = Serial_print (Str ''  ... '') w;
                   w = delay 100 w
               in log_loop slotRef rootObj (i + 1) s w))
      else (Inr s, w))"
  by pat_completeness auto
termination
  by (relation "measure (\<lambda>(slotRef, rootObj, i, s, w). 3 - i)") auto

declare log_loop.simps [simp del]

definition CloudStorage_log ::
  "time_t \<Rightarrow> real \<Rightarrow> real \<Rightarrow> bool \<Rightarrow> CloudStorage \<Rightarrow> World \<Rightarrow> (fault + CloudStorage) \<times> World" where
  "CloudStorage_log timestamp adc0 adc1 active s w =
     (let rootObj = \<lparr>json_time = timestamp, json_0 = adc0, json_1 = adc1, json_active = active\<rparr>;
          slotRef = log_ref @ ''/'' @ decimal (unat (current_entry s));
          w = Serial_print (Str (''  Logging '' @ apostrophe)) w;
          w = Serial_print (Str slotRef) w;
          w = Serial_print (Str (apostrophe @ '': '')) w
      in log_loop slotRef rootObj 0 s w)"

section \<open>Vocabulary of the properties\<close>

subsection \<open>The conversion as the specification words it\<close>

text \<open>
  Resistance \<open>R = seriesResistance / ((fullScale / adcSample) - 1)\<close> with full scale 1023,
  temperature \<open>T\<close> from \<open>1/T = 1/T0 + (1/B) * ln (R/R0)\<close> with \<open>T0\<close> the reference
  temperature in Kelvin, \<open>T_celsius = T - 273.15\<close>, and the triple as result.
\<close>

definition convert_spec :: "real \<Rightarrow> real \<Rightarrow> real \<Rightarrow> real \<Rightarrow> real \<Rightarrow> real \<times> real \<times> real" where
  "convert_spec seriesResistance referenceResistance referenceTemperatureCelsius bCoefficient
       adcSample =
     (let fullScale = 1023;
          T0 = referenceTemperatureCelsius + 273.15;
          R = seriesResistance / ((fullScale / adcSample) - 1);
          T = 1 / (1 / T0 + (1 / bCoefficient) * ln (R / referenceResistance));
          T_celsius = T - 273.15
      in (adcSample, R, T_celsius))"

subsection \<open>Configuration fields\<close>

text \<open>The twelve fields, in the order in which \<open>update\<close> reads them.\<close>

datatype field =
    SeriesResistor | TemperatureAt0 | ResistanceAt0 | BCoefficient
  | PollingMilliseconds | MaxEntries | NtpServer | GmtOffset
  | DeltaTOn | DeltaTOff | MinTOn | Oversample

datatype cfgval = FloatVal real | IntVal int32 | StringVal string

text \<open>The value a field holds in the component.\<close>

fun field_value :: "CloudStorage \<Rightarrow> field \<Rightarrow> cfgval" where
  "field_value s SeriesResistor = FloatVal (series_resistor s)"
| "field_value s TemperatureAt0 = FloatVal (temperature_at_0 s)"
| "field_value s ResistanceAt0 = FloatVal (resistance_at_0 s)"
| "field_value s BCoefficient = FloatVal (b_coefficient s)"
| "field_value s PollingMilliseconds = IntVal (polling_milliseconds s)"
| "field_value s MaxEntries = IntVal (max_entries s)"
| "field_value s NtpServer = StringVal (ntp_server s)"
| "field_value s GmtOffset = IntVal (gmt_offset s)"
| "field_value s DeltaTOn = FloatVal (delta_t_on s)"
| "field_value s DeltaTOff = FloatVal (delta_t_off s)"
| "field_value s MinTOn = FloatVal (min_t_on s)"
| "field_value s Oversample = IntVal (oversample s)"

text \<open>The reply that the next \<open>Firebase.get\<close> of the configuration receives.\<close>

definition fetched :: "World \<Rightarrow> FirebaseObject \<times> string option" where
  "fetched w = fb_get_reply (firebase w) (fb_served (firebase w)) config_ref"

text \<open>
  The component with each of the twelve fields replaced by what the accessor for it
  returns on the object, whether the read succeeded or not.
\<close>

definition overwritten :: "FirebaseObject \<Rightarrow> CloudStorage \<Rightarrow> CloudStorage" where
  "overwritten obj s =
     s\<lparr>series_resistor := fst (fo_getFloat obj series_resistor_ref),
       temperature_at_0 := fst (fo_getFloat obj temperature_at_0_ref),
       resistance_at_0 := fst (fo_getFloat obj resistance_at_0_ref),
       b_coefficient := fst (fo_getFloat obj b_coefficient_ref),
       polling_milliseconds := fst (fo_getInt obj polling_milliseconds_ref),
       max_entries := fst (fo_getInt obj max_entries_ref),
       ntp_server := fst (fo_getString obj ntp_server_ref),
       gmt_offset := fst (fo_getInt obj gmt_offset_ref),
       delta_t_on := fst (fo_getFloat obj delta_t_on_ref),
       delta_t_off := fst (fo_getFloat obj delta_t_off_ref),
       min_t_on := fst (fo_getFloat obj min_t_on_ref),
       oversample := fst (fo_getInt obj oversample_ref)\<rparr>"

subsection \<open>Log writes\<close>

text \<open>The reply to the write that is \<open>j\<close> requests ahead.\<close>

definition set_reply :: "World \<Rightarrow> nat \<Rightarrow> string \<Rightarrow> JsonObject \<Rightarrow> string option" where
  "set_reply w j path obj = fb_set_reply (firebase w) (fb_served (firebase w) + j) path obj"

text \<open>How many of the next three writes fail before one succeeds; 3 when all three fail.\<close>

definition failing_attempts :: "World \<Rightarrow> string \<Rightarrow> JsonObject \<Rightarrow> nat" where
  "failing_attempts w path obj =
     (if set_reply w 0 path obj = None then 0
      else if set_reply w 1 path obj = None then 1
      else if set_reply w 2 path obj = None then 2
      else 3)"

text \<open>The calls of one attempt.\<close>

definition attempt_calls :: "string \<Rightarrow> JsonObject \<Rightarrow> call list" where
  "attempt_calls path obj = [BlinkLed 19, FirebaseSet path obj, SetLed True]"

text \<open>
  The calls of a run with \<open>k\<close> failed attempts: each failed attempt is followed by the
  delay, a successful one ends the run.
\<close>

definition log_calls :: "nat \<Rightarrow> string \<Rightarrow> JsonObject \<Rightarrow> call list" where
  "log_calls k path obj =
     concat (replicate k (attempt_calls path obj @ [Delay 100])) @
     (if k < 3 then attempt_calls path obj else [])"

text \<open>The writes among a list of calls: path and record, in order.\<close>

fun write_attempts :: "call list \<Rightarrow> (string \<times> JsonObject) list" where
  "write_attempts [] = []"
| "write_attempts (FirebaseSet path obj # cs) = (path, obj) # write_attempts cs"
| "write_attempts (c # cs) = write_attempts cs"

text \<open>The world after one failed pass through the body of the loop.\<close>

definition after_failed_attempt :: "string \<Rightarrow> JsonObject \<Rightarrow> World \<Rightarrow> World" where
  "after_failed_attempt slotRef rootObj w =
     delay 100 (Serial_print (Str ''  ... '')
       (snd (failed (setLed True (Firebase_set slotRef rootObj (blinkLed 19 w))))))"

text \<open>The outcome of the statement that advances the cursor.\<close>

definition advanced :: "CloudStorage \<Rightarrow> fault + CloudStorage" where
  "advanced s =
     (if max_entries s = 0 then Inl DivisionByZero
      else Inr (s\<lparr>current_entry := (current_entry s + 1) mod max_entries s\<rparr>))"

text \<open>The path of slot \<open>n\<close> and the record of a sample, as \<open>log\<close> builds them.\<close>

definition slot_name :: "nat \<Rightarrow> string" where
  "slot_name n = log_ref @ ''/'' @ decimal n"

text \<open>The number that a string of decimal digits denotes.\<close>

definition decimal_value :: "string \<Rightarrow> nat" where
  "decimal_value ds = foldl (\<lambda>a c. 10 * a + (of_char c - 48)) 0 ds"

definition log_record :: "time_t \<Rightarrow> real \<Rightarrow> real \<Rightarrow> bool \<Rightarrow> JsonObject" where
  "log_record timestamp adc0 adc1 active =
     \<lparr>json_time = timestamp, json_0 = adc0, json_1 = adc1, json_active = active\<rparr>"

text \<open>The cursor and the capacity as numbers.\<close>

definition cursor :: "CloudStorage \<Rightarrow> nat" where
  "cursor s = unat (current_entry s)"

definition maxEntries :: "CloudStorage \<Rightarrow> int" where
  "maxEntries s = sint (max_entries s)"

text \<open>A caller that logs one sample after the other, as long as the calls return.\<close>

fun log_many ::
  "(time_t \<times> real \<times> real \<times> bool) list \<Rightarrow> CloudStorage \<Rightarrow> World \<Rightarrow>
   (fault + CloudStorage) \<times> World" where
  "log_many [] s w = (Inr s, w)"
| "log_many ((timestamp, adc0, adc1, active) # xs) s w =
     (case CloudStorage_log timestamp adc0 adc1 active s w of
        (Inl e, w') \<Rightarrow> (Inl e, w')
      | (Inr s', w') \<Rightarrow> log_many xs s' w')"

subsection \<open>Concrete remotes\<close>

text \<open>
  An object holding the given numbers and texts under their keys; an accessor fails on a
  key that its list does not hold.
\<close>

definition lookup_key :: "'a \<Rightarrow> (string \<times> 'a) list \<Rightarrow> string \<Rightarrow> 'a \<times> string option" where
  "lookup_key dflt kvs path =
     (case map_of kvs path of
        Some v \<Rightarrow> (v, None)
      | None \<Rightarrow> (dflt, Some ''failed to convert''))"

definition object_of ::
  "(string \<times> real) list \<Rightarrow> (string \<times> int32) list \<Rightarrow> (string \<times> string) list \<Rightarrow>
   FirebaseObject" where
  "object_of floats ints strings =
     \<lparr>fo_json = ''{...}'',
      fo_getInt = lookup_key 0 ints,
      fo_getFloat = lookup_key 0 floats,
      fo_getString = lookup_key [] strings\<rparr>"

definition full_config :: FirebaseObject where
  "full_config =
     object_of
       [(''seriesResistor'', 8200), (''temperatureAt0'', 20), (''resistanceAt0'', 10000),
        (''bCoefficient'', 3950), (''deltaTOn'', 12), (''deltaTOff'', 2), (''minTOn'', 5)]
       [(''pollingMilliseconds'', 60000), (''maxEntries'', 3), (''gmtOffset'', 1),
        (''oversample'', 32)]
       [(''ntpServer'', ''time.nist.gov'')]"

definition config_without_pollingMilliseconds :: FirebaseObject where
  "config_without_pollingMilliseconds =
     object_of
       [(''seriesResistor'', 8200), (''temperatureAt0'', 20), (''resistanceAt0'', 10000),
        (''bCoefficient'', 3950), (''deltaTOn'', 12), (''deltaTOff'', 2), (''minTOn'', 5)]
       [(''maxEntries'', 3), (''gmtOffset'', 1), (''oversample'', 32)]
       [(''ntpServer'', ''time.nist.gov'')]"

definition smaller_config :: FirebaseObject where
  "smaller_config =
     object_of
       [(''seriesResistor'', 8200), (''temperatureAt0'', 20), (''resistanceAt0'', 10000),
        (''bCoefficient'', 3950), (''deltaTOn'', 12), (''deltaTOff'', 2), (''minTOn'', 5)]
       [(''pollingMilliseconds'', 60000), (''maxEntries'', 2), (''gmtOffset'', 1),
        (''oversample'', 32)]
       [(''ntpServer'', ''time.nist.gov'')]"

text \<open>
  A remote whose \<open>n\<close>-th request ends with status \<open>status n\<close> and whose configuration is
  \<open>obj\<close>, and a world around it in which nothing has happened yet.
\<close>

definition remote :: "(nat \<Rightarrow> string option) \<Rightarrow> FirebaseObject \<Rightarrow> Firebase" where
  "remote status obj =
     \<lparr>fb_error = None,
      fb_served = 0,
      fb_begin_reply = (\<lambda>n host auth. status n),
      fb_get_reply = (\<lambda>n path. (obj, status n)),
      fb_set_reply = (\<lambda>n path rec. status n)\<rparr>"

definition world_of :: "Firebase \<Rightarrow> World" where
  "world_of fb = \<lparr>firebase = fb, calls = [], serial = []\<rparr>"

definition reachable :: "FirebaseObject \<Rightarrow> World" where
  "reachable obj = world_of (remote (\<lambda>n. None) obj)"

definition unreachable :: World where
  "unreachable = world_of (remote (\<lambda>n. Some ''connection refused'') (object_of [] [] []))"

text \<open>Four samples for a log of three entries.\<close>

definition four_samples :: "(time_t \<times> real \<times> real \<times> bool) list" where
  "four_samples =
     [(1700000000, 512, 300, True), (1700000005, 510, 302, True),
      (1700000010, 505, 310, False), (1700000015, 500, 320, False)]"

subsection \<open>A refresh that lowers the capacity\<close>

text \<open>
  A store that answers every request; the configuration holds \<open>maxEntries = 3\<close> for the
  first three requests and \<open>maxEntries = 2\<close> from then on.
\<close>

definition shrinking_store :: World where
  "shrinking_store =
     world_of
       \<lparr>fb_error = None,
        fb_served = 0,
        fb_begin_reply = (\<lambda>n host auth. None),
        fb_get_reply = (\<lambda>n path. (if n < 3 then full_config else smaller_config, None)),
        fb_set_reply = (\<lambda>n path rec. None)\<rparr>"

text \<open>
  The run on it: a refresh, two samples logged, a second refresh, a third sample logged.
\<close>

definition first_refresh :: "bool \<times> CloudStorage \<times> World" where
  "first_refresh = update CloudStorage_new shrinking_store"

definition first_log :: "(fault + CloudStorage) \<times> World" where
  "first_log =
     CloudStorage_log 1700000000 512 300 True (fst (snd first_refresh)) (snd (snd first_refresh))"

definition second_log :: "(fault + CloudStorage) \<times> World" where
  "second_log = CloudStorage_log 1700000005 510 302 True (projr (fst first_log)) (snd first_log)"

definition second_refresh :: "bool \<times> CloudStorage \<times> World" where
  "second_refresh = update (projr (fst second_log)) (snd second_log)"

definition third_log :: "(fault + CloudStorage) \<times> World" where
  "third_log =
     CloudStorage_log 1700000010 505 310 False (fst (snd second_refresh))
       (snd (snd second_refresh))"

section \<open>Lemmas about the operations\<close>

subsection \<open>Thermistor\<close>

lemma adcToResistance_positive:
  assumes "0 < adc" and "adc < 1023" and "0 < th_rs th"
  shows "0 < adcToResistance th adc"
proof -
  have "1 < 1023 / adc"
    using assms by simp
  then have "0 < (1023 / adc) - 1"
    by simp
  then show ?thesis
    using assms by (simp add: adcToResistance_def)
qed

subsection \<open>Reading the configuration\<close>

lemma failed_fst: "fst (failed w) = (fb_error (firebase w) \<noteq> None)"
  by (simp add: failed_def split: option.split)

lemma failed_calls: "calls (snd (failed w)) = calls w"
  by (simp add: failed_def Serial_print_def Serial_println_def split: option.split)

lemma failed_firebase: "firebase (snd (failed w)) = firebase w"
  by (simp add: failed_def Serial_print_def Serial_println_def split: option.split)

lemma maybeUpdate_simps:
  "fst (maybeUpdate getFn pr obj path val w) = (fb_error (firebase w) = None)"
  "fst (snd (maybeUpdate getFn pr obj path val w)) =
     (if fb_error (firebase w) = None then getFn obj path else val)"
  "calls (snd (snd (maybeUpdate getFn pr obj path val w))) = calls w"
  "firebase (snd (snd (maybeUpdate getFn pr obj path val w))) = firebase w"
  by (simp_all add: maybeUpdate_def Let_def failed_fst failed_calls failed_firebase
      Serial_print_def Serial_println_def case_prod_beta)

lemmas maybeUpdate_defs = maybeUpdateFloat_def maybeUpdateInt_def maybeUpdateString_def

lemmas thunk_defs = Firebase_getFloat_def Firebase_getInt_def Firebase_getString_def

lemma update_fetch_failed:
  assumes "snd (fetched w) \<noteq> None"
  shows "fst (update s w) = False"
    and "fst (snd (update s w)) = s"
    and "calls (snd (snd (update s w))) = calls w @ [BlinkLed 25, FirebaseGet config_ref]"
  using assms
  by (simp_all add: update_def fetched_def Firebase_get_def blinkLed_def Serial_print_def
      Let_def case_prod_beta failed_fst failed_calls)

lemma update_fetched_result:
  assumes "snd (fetched w) = None"
  shows "fst (update s w) = True"
  using assms
  by (simp add: update_def fetched_def Firebase_get_def blinkLed_def Serial_print_def
      Serial_newline_def Let_def case_prod_beta failed_fst failed_firebase maybeUpdate_defs
      maybeUpdate_simps)

lemma update_fetched_state:
  assumes "snd (fetched w) = None"
  shows "fst (snd (update s w)) = overwritten (fst (fetched w)) s"
  using assms
  by (simp add: update_def fetched_def Firebase_get_def blinkLed_def Serial_print_def
      Serial_newline_def Let_def case_prod_beta failed_fst failed_firebase maybeUpdate_defs
      maybeUpdate_simps thunk_defs overwritten_def)

lemma update_fetched_calls:
  assumes "snd (fetched w) = None"
  shows "calls (snd (snd (update s w))) =
           calls w @ [BlinkLed 25, FirebaseGet config_ref, SetLed True]"
  using assms
  by (simp add: update_def fetched_def Firebase_get_def blinkLed_def setLed_def
      Serial_print_def Serial_newline_def Let_def case_prod_beta failed_fst failed_calls
      failed_firebase maybeUpdate_defs maybeUpdate_simps)

lemma update_firebase:
  "fb_served (firebase (snd (snd (update s w)))) = fb_served (firebase w) + 1"
  "fb_get_reply (firebase (snd (snd (update s w)))) = fb_get_reply (firebase w)"
  "fb_set_reply (firebase (snd (snd (update s w)))) = fb_set_reply (firebase w)"
  by (simp_all add: update_def Firebase_get_def blinkLed_def setLed_def Serial_print_def
      Serial_newline_def Let_def case_prod_beta failed_firebase maybeUpdate_defs
      maybeUpdate_simps)

lemma current_entry_overwritten: "current_entry (overwritten obj s) = current_entry s"
  by (simp add: overwritten_def)

subsection \<open>The concrete remotes\<close>

lemmas ref_defs =
  series_resistor_ref_def temperature_at_0_ref_def resistance_at_0_ref_def
  b_coefficient_ref_def polling_milliseconds_ref_def max_entries_ref_def ntp_server_ref_def
  gmt_offset_ref_def delta_t_on_ref_def delta_t_off_ref_def min_t_on_ref_def
  oversample_ref_def

lemma fetched_reachable: "fetched (reachable obj) = (obj, None)"
  by (simp add: fetched_def reachable_def world_of_def remote_def)

lemma fetched_unreachable: "snd (fetched unreachable) = Some ''connection refused''"
  by (simp add: fetched_def unreachable_def world_of_def remote_def)

lemma polling_milliseconds_missing:
  "fo_getInt config_without_pollingMilliseconds polling_milliseconds_ref =
     (0, Some ''failed to convert'')"
  by (simp add: config_without_pollingMilliseconds_def object_of_def lookup_key_def ref_defs)

lemma overwritten_config_without_pollingMilliseconds:
  "overwritten config_without_pollingMilliseconds s =
     s\<lparr>series_resistor := 8200, temperature_at_0 := 20, resistance_at_0 := 10000,
       b_coefficient := 3950, polling_milliseconds := 0, max_entries := 3,
       ntp_server := ''time.nist.gov'', gmt_offset := 1, delta_t_on := 12, delta_t_off := 2,
       min_t_on := 5, oversample := 32\<rparr>"
  by (simp add: overwritten_def config_without_pollingMilliseconds_def object_of_def
      lookup_key_def ref_defs)

subsection \<open>Connecting\<close>

lemma CloudStorage_init_simps:
  "fst (CloudStorage_init host auth s w) = None"
  "fst (snd (CloudStorage_init host auth s w)) = s"
  "calls (snd (snd (CloudStorage_init host auth s w))) = calls w @ [FirebaseBegin host auth]"
  by (simp_all add: CloudStorage_init_def Firebase_begin_def Serial_print_def
      Serial_println_def Let_def case_prod_beta failed_calls)

subsection \<open>The retry loop\<close>

lemma log_loop_done: "log_loop slotRef rootObj 3 s w = (Inr s, w)"
  by (subst log_loop.simps) simp

lemma log_loop_ok:
  assumes "i < 3" and "set_reply w 0 slotRef rootObj = None"
  shows "fst (log_loop slotRef rootObj i s w) = advanced s"
    and "calls (snd (log_loop slotRef rootObj i s w)) = calls w @ attempt_calls slotRef rootObj"
    and "fb_set_reply (firebase (snd (log_loop slotRef rootObj i s w))) =
           fb_set_reply (firebase w)"
    and "fb_served (firebase (snd (log_loop slotRef rootObj i s w))) =
           fb_served (firebase w) + 1"
    and "fb_get_reply (firebase (snd (log_loop slotRef rootObj i s w))) =
           fb_get_reply (firebase w)"
  using assms
  by (subst log_loop.simps;
      simp add: set_reply_def Firebase_set_def blinkLed_def setLed_def Serial_print_def
        Serial_newline_def Let_def case_prod_beta failed_fst failed_calls failed_firebase
        attempt_calls_def advanced_def)+

lemma log_loop_retry:
  assumes "i < 3" and "set_reply w 0 slotRef rootObj = Some e"
  shows "log_loop slotRef rootObj i s w =
           log_loop slotRef rootObj (i + 1) s (after_failed_attempt slotRef rootObj w)"
  using assms
  by (subst log_loop.simps;
      simp add: set_reply_def Firebase_set_def blinkLed_def setLed_def
        after_failed_attempt_def Let_def case_prod_beta failed_fst)

lemma after_failed_attempt_simps:
  "calls (after_failed_attempt slotRef rootObj w) =
     calls w @ attempt_calls slotRef rootObj @ [Delay 100]"
  "fb_set_reply (firebase (after_failed_attempt slotRef rootObj w)) = fb_set_reply (firebase w)"
  "fb_served (firebase (after_failed_attempt slotRef rootObj w)) = fb_served (firebase w) + 1"
  "fb_get_reply (firebase (after_failed_attempt slotRef rootObj w)) = fb_get_reply (firebase w)"
  by (simp_all add: after_failed_attempt_def Firebase_set_def blinkLed_def setLed_def
      delay_def Serial_print_def Let_def failed_calls failed_firebase attempt_calls_def)

lemma set_reply_after_failed:
  "set_reply (after_failed_attempt slotRef rootObj w) j p obj = set_reply w (Suc j) p obj"
  by (simp add: set_reply_def after_failed_attempt_simps)

lemma log_calls_simps:
  "log_calls 0 p obj = attempt_calls p obj"
  "log_calls (Suc 0) p obj = attempt_calls p obj @ [Delay 100] @ attempt_calls p obj"
  "log_calls 2 p obj =
     attempt_calls p obj @ [Delay 100] @ attempt_calls p obj @ [Delay 100] @ attempt_calls p obj"
  "log_calls 3 p obj =
     attempt_calls p obj @ [Delay 100] @ attempt_calls p obj @ [Delay 100] @
     attempt_calls p obj @ [Delay 100]"
  by (simp_all add: log_calls_def numeral_2_eq_2 numeral_3_eq_3)

lemma failing_attempts_le: "failing_attempts w p obj \<le> 3"
  by (simp add: failing_attempts_def)

lemma log_loop_run:
  "fst (log_loop p obj 0 s w) = (if failing_attempts w p obj < 3 then advanced s else Inr s) \<and>
   calls (snd (log_loop p obj 0 s w)) = calls w @ log_calls (failing_attempts w p obj) p obj \<and>
   fb_set_reply (firebase (snd (log_loop p obj 0 s w))) = fb_set_reply (firebase w) \<and>
   fb_served (firebase (snd (log_loop p obj 0 s w))) =
     fb_served (firebase w) + min 3 (failing_attempts w p obj + 1) \<and>
   fb_get_reply (firebase (snd (log_loop p obj 0 s w))) = fb_get_reply (firebase w)"
  (is "?P (failing_attempts w p obj)")
proof (cases "set_reply w 0 p obj")
  case None
  then have k: "failing_attempts w p obj = 0"
    by (simp add: failing_attempts_def)
  have "?P 0"
    using None by (simp add: log_loop_ok log_calls_simps)
  then show ?thesis by (simp only: k)
next
  case e0: (Some e0)
  let ?w1 = "after_failed_attempt p obj w"
  have r1: "log_loop p obj 0 s w = log_loop p obj 1 s ?w1"
    using log_loop_retry [of 0 w p obj e0 s] e0 by simp
  show ?thesis
  proof (cases "set_reply w 1 p obj")
    case None
    then have k: "failing_attempts w p obj = 1"
      using e0 by (simp add: failing_attempts_def)
    have "set_reply ?w1 0 p obj = None"
      using None by (simp add: set_reply_after_failed)
    then have "?P 1"
      by (simp add: r1 log_loop_ok after_failed_attempt_simps log_calls_simps)
    then show ?thesis by (simp only: k)
  next
    case e1: (Some e1)
    let ?w2 = "after_failed_attempt p obj ?w1"
    have "set_reply ?w1 0 p obj = Some e1"
      using e1 by (simp add: set_reply_after_failed)
    then have r2: "log_loop p obj 1 s ?w1 = log_loop p obj 2 s ?w2"
      using log_loop_retry [of 1 ?w1 p obj e1 s] by (simp add: numeral_2_eq_2)
    have r12: "log_loop p obj 0 s w = log_loop p obj 2 s ?w2"
      by (simp only: r1 r2)
    show ?thesis
    proof (cases "set_reply w 2 p obj")
      case None
      then have k: "failing_attempts w p obj = 2"
        using e0 e1 by (simp add: failing_attempts_def)
      have "set_reply ?w2 0 p obj = None"
        using None by (simp add: set_reply_after_failed numeral_2_eq_2)
      then have "?P 2"
        by (simp add: r12 log_loop_ok after_failed_attempt_simps log_calls_simps)
      then show ?thesis by (simp only: k)
    next
      case e2: (Some e2)
      then have k: "failing_attempts w p obj = 3"
        using e0 e1 by (simp add: failing_attempts_def)
      let ?w3 = "after_failed_attempt p obj ?w2"
      have "set_reply ?w2 0 p obj = Some e2"
        using e2 by (simp add: set_reply_after_failed numeral_2_eq_2)
      then have r3: "log_loop p obj 2 s ?w2 = log_loop p obj 3 s ?w3"
        using log_loop_retry [of 2 ?w2 p obj e2 s] by simp
      have "log_loop p obj 0 s w = (Inr s, ?w3)"
        by (simp only: r12 r3 log_loop_done)
      then have "?P 3"
        by (simp add: after_failed_attempt_simps log_calls_simps)
      then show ?thesis by (simp only: k)
    qed
  qed
qed

text \<open>
  The prints before the loop change neither the calls nor the client, so a run of \<open>log\<close>
  is a run of the loop on the slot of the cursor.
\<close>

lemma CloudStorage_log_run:
  fixes s :: CloudStorage and w :: World
  defines "p \<equiv> slot_name (cursor s)"
  shows "fst (CloudStorage_log t a0 a1 act s w) =
           (if failing_attempts w p (log_record t a0 a1 act) < 3 then advanced s else Inr s)"
    and "calls (snd (CloudStorage_log t a0 a1 act s w)) =
           calls w @ log_calls (failing_attempts w p (log_record t a0 a1 act)) p
                      (log_record t a0 a1 act)"
    and "fb_set_reply (firebase (snd (CloudStorage_log t a0 a1 act s w))) =
           fb_set_reply (firebase w)"
    and "fb_served (firebase (snd (CloudStorage_log t a0 a1 act s w))) =
           fb_served (firebase w) +
           min 3 (failing_attempts w p (log_record t a0 a1 act) + 1)"
    and "fb_get_reply (firebase (snd (CloudStorage_log t a0 a1 act s w))) =
           fb_get_reply (firebase w)"
proof -
  let ?obj = "log_record t a0 a1 act"
  let ?w0 = "Serial_print (Str (apostrophe @ '': ''))
               (Serial_print (Str p) (Serial_print (Str (''  Logging '' @ apostrophe)) w))"
  have run: "CloudStorage_log t a0 a1 act s w = log_loop p ?obj 0 s ?w0"
    by (simp add: CloudStorage_log_def Let_def p_def slot_name_def cursor_def log_record_def)
  have w0: "calls ?w0 = calls w" "firebase ?w0 = firebase w"
    by (simp_all add: Serial_print_def)
  have "\<And>j. set_reply ?w0 j p ?obj = set_reply w j p ?obj"
    by (simp only: set_reply_def w0)
  then have k: "failing_attempts ?w0 p ?obj = failing_attempts w p ?obj"
    by (simp only: failing_attempts_def)
  show "fst (CloudStorage_log t a0 a1 act s w) =
          (if failing_attempts w p ?obj < 3 then advanced s else Inr s)"
    and "calls (snd (CloudStorage_log t a0 a1 act s w)) =
          calls w @ log_calls (failing_attempts w p ?obj) p ?obj"
    and "fb_set_reply (firebase (snd (CloudStorage_log t a0 a1 act s w))) =
          fb_set_reply (firebase w)"
    and "fb_served (firebase (snd (CloudStorage_log t a0 a1 act s w))) =
          fb_served (firebase w) + min 3 (failing_attempts w p ?obj + 1)"
    and "fb_get_reply (firebase (snd (CloudStorage_log t a0 a1 act s w))) =
          fb_get_reply (firebase w)"
    using log_loop_run [of p ?obj s ?w0] by (simp_all only: run k w0)
qed

lemma write_attempts_append:
  "write_attempts (xs @ ys) = write_attempts xs @ write_attempts ys"
  by (induction xs rule: write_attempts.induct) simp_all

lemma write_attempts_log_calls:
  "k \<le> 3 \<Longrightarrow> write_attempts (log_calls k p obj) = replicate (min 3 (k + 1)) (p, obj)"
proof -
  assume "k \<le> 3"
  then consider "k = 0" | "k = Suc 0" | "k = 2" | "k = 3"
    by arith
  then show ?thesis
  proof cases
    case 1
    then show ?thesis
      by (simp add: log_calls_simps write_attempts_append attempt_calls_def)
  next
    case 2
    then show ?thesis
      by (simp add: log_calls_simps write_attempts_append attempt_calls_def numeral_2_eq_2)
  next
    case 3
    have "write_attempts (log_calls 2 p obj) = [(p, obj), (p, obj), (p, obj)]"
      by (simp add: log_calls_simps write_attempts_append attempt_calls_def)
    then show ?thesis
      using 3 by (simp add: numeral_3_eq_3)
  next
    case 4
    have "write_attempts (log_calls 3 p obj) = [(p, obj), (p, obj), (p, obj)]"
      by (simp add: log_calls_simps write_attempts_append attempt_calls_def)
    then show ?thesis
      using 4 by (simp add: numeral_3_eq_3)
  qed
qed

subsection \<open>Cursor arithmetic\<close>

lemma sint_nonneg_uint:
  fixes m :: "32 word"
  assumes "0 \<le> sint m"
  shows "sint m = uint m"
proof -
  have nb: "\<not> bit m 31"
    using assms bit_last_iff [of m] by simp
  have "sint m = signed_take_bit 31 (uint m)"
    by (simp add: sint_uint)
  also have "\<dots> = take_bit 31 (uint m)"
    using nb by (simp add: signed_take_bit_eq_if_positive bit_uint_iff)
  also have "\<dots> = uint m"
  proof (rule bit_eqI)
    fix n
    show "bit (take_bit 31 (uint m)) n = bit (uint m) n"
    proof (cases "n < 31")
      case True
      then show ?thesis by (simp add: bit_take_bit_iff)
    next
      case False
      then have "n = 31 \<or> 32 \<le> n" by arith
      then have "\<not> bit (uint m) n"
        using nb by (auto simp: bit_uint_iff)
      then show ?thesis using False by (simp add: bit_take_bit_iff)
    qed
  qed
  finally show ?thesis .
qed

lemma sint_pos_unat:
  fixes m :: "32 word"
  assumes "1 \<le> sint m"
  shows "nat (sint m) = unat m" and "m \<noteq> 0"
proof -
  have "sint m = uint m"
    using assms by (simp add: sint_nonneg_uint)
  then show "nat (sint m) = unat m" by simp
  show "m \<noteq> 0" using assms by auto
qed

lemma cursor_step:
  fixes c m :: "32 word"
  assumes "1 \<le> sint m" and "unat c < 2 ^ 32 - 1"
  shows "unat ((c + 1) mod m) = (unat c + 1) mod nat (sint m)"
proof -
  have "unat c + unat (1 :: 32 word) < 2 ^ LENGTH(32)"
    using assms(2) by simp
  then have "unat (c + 1) = unat c + 1"
    using unat_add_lem [of c 1] by simp
  then show ?thesis
    using assms(1) by (simp add: unat_mod sint_pos_unat)
qed

lemma cursor_in_range:
  fixes c m :: "32 word"
  assumes "1 \<le> sint m"
  shows "unat ((c + 1) mod m) < nat (sint m)"
  using assms by (simp add: unat_mod sint_pos_unat unat_gt_0)

lemma cursor_below_last:
  fixes c m :: "32 word"
  assumes "m \<noteq> 0"
  shows "unat ((c + 1) mod m) < 2 ^ 32 - 1"
proof -
  have "0 < unat m"
    using assms by (simp add: unat_gt_0)
  then have "unat ((c + 1) mod m) < unat m"
    by (simp add: unat_mod)
  moreover have "unat m < 2 ^ 32"
    using unsigned_less [of m] by simp
  ultimately show ?thesis by simp
qed

lemma in_range_not_last:
  fixes c m :: "32 word"
  assumes "unat c < nat (sint m)"
  shows "unat c < 2 ^ 32 - 1"
proof -
  have "sint m < 2 ^ 31"
    using sint_lt [of m] by simp
  then show ?thesis using assms by simp
qed

subsection \<open>Frames, and runs on the concrete remotes\<close>

lemma set_reply_reachable: "set_reply (reachable obj) j p r = None"
  by (simp add: set_reply_def reachable_def world_of_def remote_def)

lemma set_reply_unreachable: "set_reply unreachable j p r = Some ''connection refused''"
  by (simp add: set_reply_def unreachable_def world_of_def remote_def)

lemma failing_attempts_reachable: "failing_attempts (reachable obj) p r = 0"
  by (simp add: failing_attempts_def set_reply_reachable)

lemma failing_attempts_unreachable: "failing_attempts unreachable p r = 3"
  by (simp add: failing_attempts_def set_reply_unreachable)

lemma calls_initial: "calls (reachable obj) = []" "calls unreachable = []"
  by (simp_all add: reachable_def unreachable_def world_of_def)

lemma update_current_entry: "current_entry (fst (snd (update s w))) = current_entry s"
  by (cases "snd (fetched w) = None")
    (simp_all add: update_fetched_state current_entry_overwritten update_fetch_failed)

lemma advanced_frame:
  assumes "advanced s = Inr s'"
  shows "s' = s\<lparr>current_entry := current_entry s'\<rparr>"
  using assms by (auto simp: advanced_def split: if_splits)

lemma CloudStorage_log_frame:
  assumes "fst (CloudStorage_log t a0 a1 act s w) = Inr s'"
  shows "s' = s\<lparr>current_entry := current_entry s'\<rparr>"
proof (cases "failing_attempts w (slot_name (cursor s)) (log_record t a0 a1 act) < 3")
  case True
  then have "advanced s = Inr s'"
    using assms by (simp add: CloudStorage_log_run)
  then show ?thesis by (rule advanced_frame)
next
  case False
  then have "s' = s"
    using assms by (simp add: CloudStorage_log_run)
  then show ?thesis by simp
qed

lemma field_value_frame: "field_value (s\<lparr>current_entry := c\<rparr>) f = field_value s f"
  by (cases f) simp_all
lemma CloudStorage_log_reachable:
  "fst (CloudStorage_log t a0 a1 act s (reachable obj)) = advanced s"
  by (simp add: CloudStorage_log_run failing_attempts_reachable)

lemma CloudStorage_log_unreachable:
  "fst (CloudStorage_log t a0 a1 act s unreachable) = Inr s"
  by (simp add: CloudStorage_log_run failing_attempts_unreachable)

lemma cursor_new: "cursor CloudStorage_new = 0"
  by (simp add: cursor_def CloudStorage_new_def)

subsection \<open>Successive log calls\<close>

lemma advanced_Inr:
  assumes "1 \<le> maxEntries s"
  shows "advanced s = Inr (s\<lparr>current_entry := (current_entry s + 1) mod max_entries s\<rparr>)"
  using assms sint_pos_unat(2) [of "max_entries s"] by (simp add: advanced_def maxEntries_def)

lemma cursor_advanced:
  assumes "1 \<le> maxEntries s" and "cursor s < 2 ^ 32 - 1"
  shows "cursor (s\<lparr>current_entry := (current_entry s + 1) mod max_entries s\<rparr>) =
           (cursor s + 1) mod nat (maxEntries s)"
  using assms cursor_step [of "max_entries s" "current_entry s"]
  by (simp add: cursor_def maxEntries_def)

lemma cursor_advanced_in_range:
  assumes "1 \<le> maxEntries s"
  shows "cursor (s\<lparr>current_entry := (current_entry s + 1) mod max_entries s\<rparr>) <
           nat (maxEntries s)"
  using assms cursor_in_range [of "max_entries s" "current_entry s"]
  by (simp add: cursor_def maxEntries_def)

lemma cursor_not_last:
  assumes "cursor s < nat (maxEntries s)"
  shows "cursor s < 2 ^ 32 - 1"
  using assms in_range_not_last [of "current_entry s" "max_entries s"]
  by (simp add: cursor_def maxEntries_def)

lemma CloudStorage_log_cursor_below_last:
  assumes "cursor s < 2 ^ 32 - 1" and "fst (CloudStorage_log t a0 a1 act s w) = Inr s'"
  shows "cursor s' < 2 ^ 32 - 1"
proof (cases "failing_attempts w (slot_name (cursor s)) (log_record t a0 a1 act) < 3")
  case True
  then have a: "advanced s = Inr s'"
    using assms(2) by (simp add: CloudStorage_log_run)
  then have m: "max_entries s \<noteq> 0"
    by (auto simp: advanced_def)
  then have "s' = s\<lparr>current_entry := (current_entry s + 1) mod max_entries s\<rparr>"
    using a by (simp add: advanced_def)
  then show ?thesis
    using cursor_below_last [OF m, of "current_entry s"] by (simp add: cursor_def)
next
  case False
  then have "s' = s"
    using assms(2) by (simp add: CloudStorage_log_run)
  then show ?thesis using assms(1) by simp
qed

lemma failing_attempts_all_succeed:
  assumes "\<forall>n p r. fb_set_reply (firebase w) n p r = None"
  shows "failing_attempts w p r = 0"
  using assms by (simp add: failing_attempts_def set_reply_def)

lemma log_many_Cons:
  assumes "fst (CloudStorage_log t a0 a1 act s w) = Inr s1"
  shows "log_many ((t, a0, a1, act) # xs) s w =
           log_many xs s1 (snd (CloudStorage_log t a0 a1 act s w))"
  using assms by (cases "CloudStorage_log t a0 a1 act s w") simp

lemma log_many_all_succeed:
  assumes "\<forall>n p r. fb_set_reply (firebase w) n p r = None"
    and "1 \<le> maxEntries s"
    and "cursor s < nat (maxEntries s)"
  shows "\<exists>s'. fst (log_many xs s w) = Inr s' \<and>
              max_entries s' = max_entries s \<and>
              cursor s' = (cursor s + length xs) mod nat (maxEntries s) \<and>
              map fst (write_attempts (calls (snd (log_many xs s w)))) =
                map fst (write_attempts (calls w)) @
                map (\<lambda>j. slot_name ((cursor s + j) mod nat (maxEntries s))) [0..<length xs]"
  using assms
proof (induction xs arbitrary: s w)
  case Nil
  then show ?case by simp
next
  case (Cons x xs)
  obtain t a0 a1 act where x: "x = (t, a0, a1, act)"
    by (cases x) auto
  let ?s1 = "s\<lparr>current_entry := (current_entry s + 1) mod max_entries s\<rparr>"
  let ?w1 = "snd (CloudStorage_log t a0 a1 act s w)"
  let ?M = "nat (maxEntries s)"
  note a = Cons.prems
  have k: "failing_attempts w (slot_name (cursor s)) (log_record t a0 a1 act) = 0"
    using a(1) by (rule failing_attempts_all_succeed)
  have r: "fst (CloudStorage_log t a0 a1 act s w) = Inr ?s1"
    using a(2) by (simp add: CloudStorage_log_run k advanced_Inr)
  have step: "log_many (x # xs) s w = log_many xs ?s1 ?w1"
    unfolding x using r by (rule log_many_Cons)
  have w1: "\<forall>n p r. fb_set_reply (firebase ?w1) n p r = None"
    using a(1) by (simp add: CloudStorage_log_run)
  have m1: "maxEntries ?s1 = maxEntries s" "max_entries ?s1 = max_entries s"
    by (simp_all add: maxEntries_def)
  have c1: "cursor ?s1 = (cursor s + 1) mod ?M"
    using cursor_advanced [OF a(2) cursor_not_last [OF a(3)]] .
  have c1r: "cursor ?s1 < nat (maxEntries ?s1)"
    using a(2) by (simp only: m1 cursor_advanced_in_range)
  have calls1: "map fst (write_attempts (calls ?w1)) =
      map fst (write_attempts (calls w)) @ [slot_name (cursor s)]"
    by (simp add: CloudStorage_log_run k log_calls_simps write_attempts_append
        attempt_calls_def)
  have m1': "1 \<le> maxEntries ?s1"
    using a(2) m1 by simp
  obtain s' where s': "fst (log_many xs ?s1 ?w1) = Inr s'"
    "max_entries s' = max_entries ?s1"
    "cursor s' = (cursor ?s1 + length xs) mod nat (maxEntries ?s1)"
    "map fst (write_attempts (calls (snd (log_many xs ?s1 ?w1)))) =
       map fst (write_attempts (calls ?w1)) @
       map (\<lambda>j. slot_name ((cursor ?s1 + j) mod nat (maxEntries ?s1))) [0..<length xs]"
    using Cons.IH [OF w1 m1' c1r] by blast
  have cur: "cursor s' = (cursor s + length (x # xs)) mod ?M"
    using s'(3) by (simp add: c1 m1 mod_add_left_eq)
  have shift: "\<And>j. ((cursor s + 1) mod ?M + j) mod ?M = (cursor s + Suc j) mod ?M"
    by (simp add: mod_add_left_eq)
  have c0: "cursor s mod ?M = cursor s"
    using a(3) by simp
  have "map fst (write_attempts (calls (snd (log_many (x # xs) s w)))) =
          map fst (write_attempts (calls w)) @
          map (\<lambda>j. slot_name ((cursor s + j) mod ?M)) [0..<length (x # xs)]"
    by (simp only: step s'(4) calls1 c1 m1 shift length_Cons map_upt_Suc)
      (simp add: c0)
  then show ?case
    using s'(1,2) cur step m1 by simp
qed

lemma decimal_value_decimal: "decimal_value (decimal n) = n"
proof (induction n rule: decimal.induct)
  case (1 n)
  show ?case
  proof (cases "n < 10")
    case True
    then have "(48 + n) mod 256 = 48 + n" by simp
    then show ?thesis
      using True by (subst decimal.simps) (simp add: decimal_value_def)
  next
    case False
    have d: "(48 + n mod 10) mod 256 = 48 + n mod 10"
      by (rule mod_less) (use mod_less_divisor [of 10 n] in arith)
    have "decimal_value (decimal n) = 10 * decimal_value (decimal (n div 10)) + n mod 10"
      using False by (subst decimal.simps) (simp add: decimal_value_def d)
    then show ?thesis
      using 1 False by simp
  qed
qed

lemma slot_name_inj: "slot_name a = slot_name b \<Longrightarrow> a = b"
proof -
  assume "slot_name a = slot_name b"
  then have "decimal a = decimal b"
    by (simp add: slot_name_def)
  then have "decimal_value (decimal a) = decimal_value (decimal b)"
    by simp
  then show "a = b"
    by (simp only: decimal_value_decimal)
qed

lemma distinct_slot_names: "distinct (map slot_name [0..<n])"
  by (simp add: distinct_map inj_on_def) (blast dest: slot_name_inj)

lemma slot_name_examples:
  "slot_name 0 = ''log/0''" "slot_name 1 = ''log/1''" "slot_name 2 = ''log/2''"
  by code_simp+

lemma wrap_round:
  assumes "0 < M"
  shows "map (\<lambda>j. f ((0 + j) mod M)) [0..<M + 1] = map f ([0..<M] @ [0::nat])"
  using assms by simp

lemma log_many_round:
  assumes "1 \<le> maxEntries s" and "cursor s = 0"
    and "\<forall>n p r. fb_set_reply (firebase w) n p r = None"
    and "length xs = nat (maxEntries s) + 1"
  shows "\<exists>s'. fst (log_many xs s w) = Inr s' \<and> cursor s' = 1 mod nat (maxEntries s)"
    and "\<exists>s'. fst (log_many (butlast xs) s w) = Inr s' \<and> cursor s' = 0"
    and "map fst (write_attempts (calls (snd (log_many xs s w)))) =
           map fst (write_attempts (calls w)) @ map slot_name ([0..<nat (maxEntries s)] @ [0])"
proof -
  let ?M = "nat (maxEntries s)"
  have M: "0 < ?M" and c: "cursor s < ?M"
    using assms(1,2) by simp_all
  have all: "\<exists>s'. fst (log_many xs s w) = Inr s' \<and>
              max_entries s' = max_entries s \<and>
              cursor s' = (cursor s + length xs) mod ?M \<and>
              map fst (write_attempts (calls (snd (log_many xs s w)))) =
                map fst (write_attempts (calls w)) @
                map (\<lambda>j. slot_name ((cursor s + j) mod ?M)) [0..<length xs]"
    using log_many_all_succeed [OF assms(3) assms(1) c] .
  have "(cursor s + length xs) mod ?M = 1 mod ?M"
    by (simp only: assms(2,4) add_0 mod_add_self1)
  then show "\<exists>s'. fst (log_many xs s w) = Inr s' \<and> cursor s' = 1 mod ?M"
    using all by metis
  have "\<exists>s'. fst (log_many (butlast xs) s w) = Inr s' \<and>
              max_entries s' = max_entries s \<and>
              cursor s' = (cursor s + length (butlast xs)) mod ?M \<and>
              map fst (write_attempts (calls (snd (log_many (butlast xs) s w)))) =
                map fst (write_attempts (calls w)) @
                map (\<lambda>j. slot_name ((cursor s + j) mod ?M)) [0..<length (butlast xs)]"
    using log_many_all_succeed [OF assms(3) assms(1) c] .
  then show "\<exists>s'. fst (log_many (butlast xs) s w) = Inr s' \<and> cursor s' = 0"
    by (auto simp: assms(2,4))
  show "map fst (write_attempts (calls (snd (log_many xs s w)))) =
           map fst (write_attempts (calls w)) @ map slot_name ([0..<?M] @ [0])"
    using all wrap_round [OF M, of slot_name] by (auto simp: assms(2,4))
qed

subsection \<open>The run with a lowered capacity\<close>

lemma shrinking_store_simps:
  "fb_served (firebase shrinking_store) = 0"
  "fb_get_reply (firebase shrinking_store) =
     (\<lambda>n path. (if n < 3 then full_config else smaller_config, None))"
  "fb_set_reply (firebase shrinking_store) = (\<lambda>n path rec. None)"
  "calls shrinking_store = []"
  by (simp_all add: shrinking_store_def world_of_def)

lemma capacity_of_configs:
  "max_entries (overwritten full_config s) = 3"
  "max_entries (overwritten smaller_config s) = 2"
  by (simp_all add: overwritten_def full_config_def smaller_config_def object_of_def
      lookup_key_def ref_defs)

lemma shrinking_run:
  "fst first_refresh = True"
  "fst (snd first_refresh) = overwritten full_config CloudStorage_new"
  "fst first_log = Inr ((overwritten full_config CloudStorage_new)\<lparr>current_entry := 1\<rparr>)"
  "fst second_log = Inr ((overwritten full_config CloudStorage_new)\<lparr>current_entry := 2\<rparr>)"
  "fst second_refresh = True"
  "fst (snd second_refresh) =
     overwritten smaller_config ((overwritten full_config CloudStorage_new)\<lparr>current_entry := 2\<rparr>)"
  "map fst (write_attempts (calls (snd third_log))) = [slot_name 0, slot_name 1, slot_name 2]"
proof -
  let ?s1 = "overwritten full_config CloudStorage_new"
  let ?w1 = "snd (snd first_refresh)"
  have f0: "fetched shrinking_store = (full_config, None)"
    by (simp add: fetched_def shrinking_store_simps)
  show r1: "fst first_refresh = True"
    by (simp add: first_refresh_def update_fetched_result f0)
  show s1: "fst (snd first_refresh) = ?s1"
    by (simp add: first_refresh_def update_fetched_state f0)
  have w1: "fb_served (firebase ?w1) = 1"
    "fb_get_reply (firebase ?w1) = fb_get_reply (firebase shrinking_store)"
    "fb_set_reply (firebase ?w1) = (\<lambda>n path rec. None)"
    "calls ?w1 = [BlinkLed 25, FirebaseGet config_ref, SetLed True]"
    by (simp_all add: first_refresh_def update_firebase update_fetched_calls f0
        shrinking_store_simps)
  have c1: "cursor ?s1 = 0" "current_entry ?s1 = 0"
    by (simp_all add: cursor_def current_entry_overwritten CloudStorage_new_def)
  have k1: "\<And>p r. failing_attempts ?w1 p r = 0"
    by (rule failing_attempts_all_succeed) (simp add: w1)
  show l1: "fst first_log = Inr (?s1\<lparr>current_entry := 1\<rparr>)"
    by (simp add: first_log_def s1 CloudStorage_log_run k1 advanced_def capacity_of_configs c1)
  let ?s2 = "?s1\<lparr>current_entry := 1\<rparr>"
  let ?w2 = "snd first_log"
  have w2: "fb_served (firebase ?w2) = 2"
    "fb_get_reply (firebase ?w2) = fb_get_reply (firebase shrinking_store)"
    "fb_set_reply (firebase ?w2) = (\<lambda>n path rec. None)"
    "calls ?w2 = calls ?w1 @ attempt_calls (slot_name 0) (log_record 1700000000 512 300 True)"
    by (simp_all add: first_log_def s1 CloudStorage_log_run k1 w1 c1 log_calls_simps)
  have k2: "\<And>p r. failing_attempts ?w2 p r = 0"
    by (rule failing_attempts_all_succeed) (simp add: w2)
  have m2: "max_entries ?s2 = 3" "cursor ?s2 = 1" "current_entry ?s2 = 1"
    by (simp_all add: capacity_of_configs cursor_def)
  show l2: "fst second_log = Inr (?s1\<lparr>current_entry := 2\<rparr>)"
    by (simp add: second_log_def l1 CloudStorage_log_run k2 advanced_def m2)
  let ?s3 = "?s1\<lparr>current_entry := 2\<rparr>"
  let ?w3 = "snd second_log"
  have w3: "fb_served (firebase ?w3) = 3"
    "fb_get_reply (firebase ?w3) = fb_get_reply (firebase shrinking_store)"
    "fb_set_reply (firebase ?w3) = (\<lambda>n path rec. None)"
    "calls ?w3 = calls ?w2 @ attempt_calls (slot_name 1) (log_record 1700000005 510 302 True)"
    by (simp_all add: second_log_def l1 CloudStorage_log_run k2 w2 m2 log_calls_simps)
  have f3: "fetched ?w3 = (smaller_config, None)"
    by (simp add: fetched_def w3 shrinking_store_simps)
  show r4: "fst second_refresh = True"
    by (simp add: second_refresh_def update_fetched_result f3)
  show s4: "fst (snd second_refresh) = overwritten smaller_config ?s3"
    by (simp add: second_refresh_def l2 update_fetched_state f3)
  let ?s4 = "overwritten smaller_config ?s3"
  let ?w4 = "snd (snd second_refresh)"
  have w4: "fb_set_reply (firebase ?w4) = (\<lambda>n path rec. None)"
    "calls ?w4 = calls ?w3 @ [BlinkLed 25, FirebaseGet config_ref, SetLed True]"
    by (simp_all add: second_refresh_def update_firebase update_fetched_calls f3 w3)
  have k4: "\<And>p r. failing_attempts ?w4 p r = 0"
    by (rule failing_attempts_all_succeed) (simp add: w4)
  have c4: "cursor ?s4 = 2"
    by (simp add: cursor_def current_entry_overwritten)
  show "map fst (write_attempts (calls (snd third_log))) = [slot_name 0, slot_name 1, slot_name 2]"
    by (simp add: third_log_def s4 CloudStorage_log_run k4 c4 w4 w3 w2 w1 log_calls_simps
        write_attempts_append attempt_calls_def)
qed

section \<open>Properties of the specification\<close>

subsection \<open>Thermistor\<close>

text \<open>
  Claim C5. \<open>init\<close> stores the reference temperature in Kelvin, as the Celsius value plus
  273.15. \<open>toReading\<close> computes the resistance \<open>rs / ((1023 / adc) - 1)\<close>, then the
  temperature \<open>T\<close> with \<open>1/T = 1/T0 + (1/B) * ln (R/R0)\<close> and \<open>T - 273.15\<close> in Celsius, and
  returns the sample, the resistance and the Celsius temperature: its result is the triple
  of \<open>convert_spec\<close>. Arithmetic is that of the real numbers.
\<close>

theorem toReading_computes_b_parameter_model:
  "th_t0 (Thermistor_init th rs r0 t0 b) = t0 + 273.15 \<and>
   rd_adc (toReading (Thermistor_init th rs r0 t0 b) adc) = adc \<and>
   rd_resistance (toReading (Thermistor_init th rs r0 t0 b) adc) = rs / ((1023 / adc) - 1) \<and>
   1 / (rd_celsius (toReading (Thermistor_init th rs r0 t0 b) adc) + 273.15) =
     1 / (t0 + 273.15) +
     (1 / b) * ln (rd_resistance (toReading (Thermistor_init th rs r0 t0 b) adc) / r0) \<and>
   (rd_adc (toReading (Thermistor_init th rs r0 t0 b) adc),
    rd_resistance (toReading (Thermistor_init th rs r0 t0 b) adc),
    rd_celsius (toReading (Thermistor_init th rs r0 t0 b) adc)) = convert_spec rs r0 t0 b adc"
  by (simp add: Thermistor_init_def toReading_def adcToResistance_def resistanceToCelsius_def
      convert_spec_def th_k_def Let_def add.commute)

text \<open>
  Claim C8. For a sample strictly between 0 and the full scale 1023 and a strictly
  positive series resistance, the resistance that \<open>toReading\<close> returns is strictly
  positive. Arithmetic is that of the real numbers.
\<close>

theorem toReading_resistance_positive:
  assumes "0 < adc" and "adc < 1023" and "0 < rs"
  shows "0 < rd_resistance (toReading (Thermistor_init th rs r0 t0 b) adc)"
  using adcToResistance_positive [of adc "Thermistor_init th rs r0 t0 b"] assms
  by (simp add: toReading_def Thermistor_init_def Let_def)

theorem toReading_resistance_positive_witness:
  "(0::real) < 512 \<and> (512::real) < 1023 \<and> (0::real) < 8170 \<and>
   0 < rd_resistance
         (toReading (Thermistor_init \<lparr>th_rs = 0, th_r0 = 0, th_t0 = 0, th_b = 0\<rparr>
                       8170 9555.55 25 3380) 512)"
  using toReading_resistance_positive
          [of 512 8170 "\<lparr>th_rs = 0, th_r0 = 0, th_t0 = 0, th_b = 0\<rparr>" "9555.55" 25 3380]
  by simp

subsection \<open>Refreshing the configuration\<close>

text \<open>
  Claim C1. When the fetch succeeds, the result of \<open>update\<close> should be the conjunction of
  the outcomes of the twelve field reads: true with all twelve readable, false with one
  unreadable, which then keeps its value. The code does the first and not the second. On
  a fresh component and a configuration without \<open>pollingMilliseconds\<close>, the read of that
  field fails, yet \<open>update\<close> returns true and stores the 0 that the accessor returns over
  the initial 5000; the fields read after it are stored as well. The test after each read
  is \<open>failed\<close>, which asks the client, and the client's last call, the fetch, succeeded.
\<close>

theorem update_ignores_failed_field_read:
  "snd (fo_getInt config_without_pollingMilliseconds polling_milliseconds_ref) \<noteq> None \<and>
   polling_milliseconds CloudStorage_new = 5000 \<and>
   fst (update CloudStorage_new (reachable config_without_pollingMilliseconds)) = True \<and>
   fst (snd (update CloudStorage_new (reachable config_without_pollingMilliseconds))) =
     CloudStorage_new
       \<lparr>series_resistor := 8200, temperature_at_0 := 20, resistance_at_0 := 10000,
        b_coefficient := 3950, polling_milliseconds := 0, max_entries := 3,
        ntp_server := ''time.nist.gov'', gmt_offset := 1, delta_t_on := 12, delta_t_off := 2,
        min_t_on := 5, oversample := 32\<rparr> \<and>
   fst (update CloudStorage_new (reachable full_config)) = True"
  by (simp add: polling_milliseconds_missing update_fetched_result update_fetched_state
      fetched_reachable overwritten_config_without_pollingMilliseconds)
    (simp add: CloudStorage_new_def)

text \<open>
  Claim C4. When the fetch of the whole configuration fails, \<open>update\<close> returns false and
  leaves the component as it was, the initial values on a first call. When the read of a
  single field fails, \<open>maybeUpdate\<close> should return false and leave the variable as it
  was. It does not: after a fetch that succeeded, \<open>maybeUpdateInt\<close> on the missing
  \<open>pollingMilliseconds\<close> returns true and replaces 5000 by the 0 that the accessor
  returns, and so does \<open>update\<close>.
\<close>

theorem maybeUpdate_overwrites_on_failed_read:
  "fst (update CloudStorage_new unreachable) = False \<and>
   fst (snd (update CloudStorage_new unreachable)) = CloudStorage_new \<and>
   snd (fo_getInt config_without_pollingMilliseconds polling_milliseconds_ref) \<noteq> None \<and>
   fst (maybeUpdateInt config_without_pollingMilliseconds polling_milliseconds_ref 5000
         (snd (Firebase_get config_ref (reachable config_without_pollingMilliseconds)))) =
     True \<and>
   fst (snd (maybeUpdateInt config_without_pollingMilliseconds polling_milliseconds_ref 5000
         (snd (Firebase_get config_ref (reachable config_without_pollingMilliseconds))))) =
     0 \<and>
   polling_milliseconds CloudStorage_new = 5000 \<and>
   polling_milliseconds
     (fst (snd (update CloudStorage_new (reachable config_without_pollingMilliseconds)))) = 0"
  by (simp add: update_fetch_failed fetched_unreachable polling_milliseconds_missing
      maybeUpdateInt_def maybeUpdate_simps Firebase_getInt_def update_fetched_state
      fetched_reachable overwritten_config_without_pollingMilliseconds)
    (simp add: Firebase_get_def reachable_def world_of_def remote_def CloudStorage_new_def)

text \<open>
  Claim C7. Where the store cannot be reached, \<open>update\<close> starts the blinking and returns
  false through its early \<open>return\<close>: the call that stops the blinking is never made, and
  the LED is left blinking. Where the fetch succeeds the last call is \<open>setLed(true)\<close>.
\<close>

theorem update_leaves_led_blinking_when_fetch_fails:
  "fst (update CloudStorage_new unreachable) = False \<and>
   calls (snd (snd (update CloudStorage_new unreachable))) =
     [BlinkLed 25, FirebaseGet ''config''] \<and>
   SetLed True \<notin> set (calls (snd (snd (update CloudStorage_new unreachable)))) \<and>
   calls (snd (snd (update CloudStorage_new (reachable full_config)))) =
     [BlinkLed 25, FirebaseGet ''config'', SetLed True]"
  by (simp add: update_fetch_failed update_fetched_calls fetched_unreachable fetched_reachable
      calls_initial config_ref_def)

subsection \<open>Connecting to the store\<close>

text \<open>
  Claim C9. \<open>init\<close> calls \<open>Firebase.begin\<close> once and makes no other call. It has no
  \<open>return\<close> statement: whether the attempt failed or not, no value is returned to the
  caller.
\<close>

theorem init_returns_no_value:
  "calls (snd (snd (CloudStorage_init ''example.firebaseio.com'' ''secret'' CloudStorage_new
                     unreachable))) =
     [FirebaseBegin ''example.firebaseio.com'' ''secret''] \<and>
   fst (failed (Firebase_begin ''example.firebaseio.com'' ''secret'' unreachable)) = True \<and>
   fst (CloudStorage_init ''example.firebaseio.com'' ''secret'' CloudStorage_new unreachable) =
     None \<and>
   fst (CloudStorage_init ''example.firebaseio.com'' ''secret'' CloudStorage_new
         (reachable full_config)) = None"
  by (simp add: CloudStorage_init_simps calls_initial failed_fst Firebase_begin_def
      unreachable_def world_of_def remote_def)

subsection \<open>What the operations leave alone\<close>

text \<open>
  Claim C10. \<open>update\<close> never changes the log cursor, whatever the outcome of the fetch and
  of the field reads. A call of \<open>log\<close> that returns changes nothing but the cursor: each
  of the twelve configuration fields holds its previous value.
\<close>

theorem update_and_log_frames:
  "current_entry (fst (snd (update s w))) = current_entry s \<and>
   (fst (CloudStorage_log t a0 a1 act s' w') = Inr s'' \<longrightarrow>
      s'' = s'\<lparr>current_entry := current_entry s''\<rparr> \<and>
      (\<forall>f. field_value s'' f = field_value s' f))"
proof (intro conjI impI allI)
  show "current_entry (fst (snd (update s w))) = current_entry s"
    by (rule update_current_entry)
next
  assume r: "fst (CloudStorage_log t a0 a1 act s' w') = Inr s''"
  then show eq: "s'' = s'\<lparr>current_entry := current_entry s''\<rparr>"
    by (rule CloudStorage_log_frame)
  fix f
  show "field_value s'' f = field_value s' f"
    using field_value_frame [where s = s' and c = "current_entry s''" and f = f] eq by simp
qed

theorem update_and_log_frames_witness:
  "fst (CloudStorage_log 1700000000 512 300 True (CloudStorage_new\<lparr>max_entries := 3\<rparr>)
         (reachable full_config)) =
     Inr (CloudStorage_new\<lparr>max_entries := 3, current_entry := 1\<rparr>) \<and>
   field_value (CloudStorage_new\<lparr>max_entries := 3, current_entry := 1\<rparr>) MaxEntries =
     field_value (CloudStorage_new\<lparr>max_entries := 3\<rparr>) MaxEntries"
proof -
  have r: "fst (CloudStorage_log 1700000000 512 300 True (CloudStorage_new\<lparr>max_entries := 3\<rparr>)
                 (reachable full_config)) =
             Inr (CloudStorage_new\<lparr>max_entries := 3, current_entry := 1\<rparr>)"
    by (simp add: CloudStorage_log_reachable advanced_def CloudStorage_new_def)
  show ?thesis
    using r update_and_log_frames
            [of CloudStorage_new unreachable 1700000000 512 300 True
                "CloudStorage_new\<lparr>max_entries := 3\<rparr>" "reachable full_config"
                "CloudStorage_new\<lparr>max_entries := 3, current_entry := 1\<rparr>"]
    by simp
qed

subsection \<open>Appending to the log\<close>

text \<open>
  Claim C3. With \<open>k\<close> the number of failed attempts before the first success, 3 when the
  store fails all three, \<open>log\<close> makes \<open>k\<close> failed attempts, each followed by a delay of
  100 ms, and then, if \<open>k < 3\<close>, the successful attempt, after which the loop ends. All
  writes go to the slot of the cursor and there are \<open>min 3 (k + 1)\<close> of them, so at most
  three. When all three fail there are exactly three writes, the call returns normally
  and the component, with its cursor, is unchanged: nothing tells the caller of the
  failure.
\<close>

theorem log_retries_up_to_three_writes:
  fixes s :: CloudStorage and w :: World and t :: time_t and a0 a1 :: real and act :: bool
  defines "p \<equiv> slot_name (cursor s)"
  defines "obj \<equiv> log_record t a0 a1 act"
  defines "k \<equiv> failing_attempts w p obj"
  defines "r \<equiv> CloudStorage_log t a0 a1 act s w"
  shows "calls (snd r) =
           calls w @
           concat (replicate k [BlinkLed 19, FirebaseSet p obj, SetLed True, Delay 100]) @
           (if k < 3 then [BlinkLed 19, FirebaseSet p obj, SetLed True] else []) \<and>
         write_attempts (calls (snd r)) =
           write_attempts (calls w) @ replicate (min 3 (k + 1)) (p, obj) \<and>
         k \<le> 3 \<and>
         (k = 3 \<longrightarrow>
            fst r = Inr s \<and>
            write_attempts (calls (snd r)) =
              write_attempts (calls w) @ [(p, obj), (p, obj), (p, obj)])"
proof -
  have k3: "k \<le> 3"
    by (simp add: k_def failing_attempts_le)
  have c: "calls (snd r) = calls w @ log_calls k p obj"
    by (simp add: r_def k_def p_def obj_def CloudStorage_log_run)
  have wr: "write_attempts (calls (snd r)) =
              write_attempts (calls w) @ replicate (min 3 (k + 1)) (p, obj)"
    by (simp add: c write_attempts_append write_attempts_log_calls [OF k3])
  have f: "k = 3 \<longrightarrow> fst r = Inr s"
    by (simp add: r_def k_def p_def obj_def CloudStorage_log_run)
  have "k = 3 \<longrightarrow> write_attempts (calls (snd r)) =
              write_attempts (calls w) @ [(p, obj), (p, obj), (p, obj)]"
    by (simp add: wr numeral_3_eq_3)
  then show ?thesis
    using k3 c wr f by (simp add: log_calls_def attempt_calls_def)
qed

theorem log_retries_up_to_three_writes_witness:
  "failing_attempts unreachable (slot_name (cursor CloudStorage_new))
     (log_record 1700000000 512 300 True) = 3 \<and>
   fst (CloudStorage_log 1700000000 512 300 True CloudStorage_new unreachable) =
     Inr CloudStorage_new \<and>
   write_attempts (calls (snd (CloudStorage_log 1700000000 512 300 True CloudStorage_new
                                 unreachable))) =
     [(slot_name 0, log_record 1700000000 512 300 True),
      (slot_name 0, log_record 1700000000 512 300 True),
      (slot_name 0, log_record 1700000000 512 300 True)]"
  using log_retries_up_to_three_writes [of 1700000000 512 300 True CloudStorage_new unreachable]
  by (simp add: failing_attempts_unreachable calls_initial cursor_new numeral_3_eq_3)

text \<open>
  Claim C6. The component starts with \<open>max_entries = 0\<close>. \<open>log\<close> computes the remainder
  without a check: the call stops with a division by zero exactly when \<open>max_entries\<close> is 0
  and one of the three attempts succeeds, as it does on a fresh component whose store
  answers. With \<open>max_entries\<close> at least 1 the call returns.
\<close>

theorem log_divides_by_zero_without_max_entries:
  "max_entries CloudStorage_new = 0 \<and>
   fst (CloudStorage_log t a0 a1 act CloudStorage_new (reachable obj)) = Inl DivisionByZero \<and>
   ((fst (CloudStorage_log t a0 a1 act s w) = Inl DivisionByZero) =
      (max_entries s = 0 \<and>
       failing_attempts w (slot_name (cursor s)) (log_record t a0 a1 act) < 3)) \<and>
   (1 \<le> maxEntries s' \<longrightarrow> (\<exists>s''. fst (CloudStorage_log t a0 a1 act s' w') = Inr s''))"
proof -
  have "(fst (CloudStorage_log t a0 a1 act s w) = Inl DivisionByZero) =
      (max_entries s = 0 \<and>
       failing_attempts w (slot_name (cursor s)) (log_record t a0 a1 act) < 3)"
    by (simp add: CloudStorage_log_run advanced_def)
  moreover have "1 \<le> maxEntries s' \<longrightarrow>
      (\<exists>s''. fst (CloudStorage_log t a0 a1 act s' w') = Inr s'')"
    by (auto simp: CloudStorage_log_run advanced_def maxEntries_def)
  moreover have "fst (CloudStorage_log t a0 a1 act CloudStorage_new (reachable obj)) =
      Inl DivisionByZero"
    by (simp add: CloudStorage_log_reachable advanced_def CloudStorage_new_def)
  ultimately show ?thesis
    by (simp add: CloudStorage_new_def)
qed

theorem log_divides_by_zero_without_max_entries_witness:
  "1 \<le> maxEntries (CloudStorage_new\<lparr>max_entries := 3\<rparr>) \<and>
   (\<exists>s''. fst (CloudStorage_log 1700000000 512 300 True (CloudStorage_new\<lparr>max_entries := 3\<rparr>)
                  unreachable) = Inr s'') \<and>
   fst (CloudStorage_log 1700000000 512 300 True CloudStorage_new (reachable full_config)) =
     Inl DivisionByZero"
  using log_divides_by_zero_without_max_entries
          [of 1700000000 512 300 True full_config CloudStorage_new unreachable
              "CloudStorage_new\<lparr>max_entries := 3\<rparr>" unreachable]
  by (simp add: maxEntries_def)

text \<open>
  Claim C2. The cursor starts at 0. With \<open>maxEntries\<close> at least 1, a call of \<open>log\<close> in
  which a write succeeds moves the cursor to \<open>(cursor + 1) mod maxEntries\<close>, which lies
  below \<open>maxEntries\<close>; a call in which all three writes fail leaves the component, and so
  the cursor, as it was. Hence a cursor below \<open>maxEntries\<close> stays there over calls of
  \<open>log\<close>, which leave \<open>maxEntries\<close> alone. Starting from
  cursor 0 with every write succeeding, \<open>maxEntries + 1\<close> successive calls write the slots
  \<open>0, 1, \<dots>, maxEntries - 1\<close>, whose paths differ from each other, and then slot 0 again;
  after \<open>maxEntries\<close> calls the cursor is back at 0. The step is stated for a cursor other
  than \<open>2^32 - 1\<close>, where the addition in \<open>uint32_t\<close> wraps to 0 first. No cursor below
  \<open>maxEntries\<close> has that value and the component never reaches it: the cursor starts
  below it, \<open>log\<close> keeps it below whatever \<open>maxEntries\<close> is, and \<open>update\<close> does not touch
  it.
\<close>

theorem log_cursor_wraps_at_max_entries:
  "current_entry CloudStorage_new = 0 \<and>
   (1 \<le> maxEntries s \<and> cursor s < 2 ^ 32 - 1 \<and>
    failing_attempts w (slot_name (cursor s)) (log_record t a0 a1 act) < 3 \<longrightarrow>
      (\<exists>s'. fst (CloudStorage_log t a0 a1 act s w) = Inr s' \<and>
            cursor s' = (cursor s + 1) mod nat (maxEntries s) \<and>
            cursor s' < nat (maxEntries s) \<and>
            maxEntries s' = maxEntries s)) \<and>
   (failing_attempts w1 (slot_name (cursor s1)) (log_record t a0 a1 act) = 3 \<longrightarrow>
      fst (CloudStorage_log t a0 a1 act s1 w1) = Inr s1) \<and>
   (cursor s3 < nat (maxEntries s3) \<and> fst (CloudStorage_log t a0 a1 act s3 w3) = Inr s4 \<longrightarrow>
      cursor s4 < nat (maxEntries s4)) \<and>
   cursor CloudStorage_new < 2 ^ 32 - 1 \<and>
   cursor (fst (snd (update s7 w7))) = cursor s7 \<and>
   (cursor s5 < 2 ^ 32 - 1 \<and> fst (CloudStorage_log t a0 a1 act s5 w5) = Inr s6 \<longrightarrow>
      cursor s6 < 2 ^ 32 - 1) \<and>
   (1 \<le> maxEntries s2 \<and> cursor s2 = 0 \<and>
    (\<forall>n p r. fb_set_reply (firebase w2) n p r = None) \<and>
    length xs = nat (maxEntries s2) + 1 \<longrightarrow>
      (\<exists>s'. fst (log_many xs s2 w2) = Inr s' \<and> cursor s' = 1 mod nat (maxEntries s2)) \<and>
      (\<exists>s'. fst (log_many (butlast xs) s2 w2) = Inr s' \<and> cursor s' = 0) \<and>
      map fst (write_attempts (calls (snd (log_many xs s2 w2)))) =
        map fst (write_attempts (calls w2)) @ map slot_name ([0..<nat (maxEntries s2)] @ [0]) \<and>
      distinct (map slot_name [0..<nat (maxEntries s2)]))"
proof -
  have step: "1 \<le> maxEntries s \<and> cursor s < 2 ^ 32 - 1 \<and>
    failing_attempts w (slot_name (cursor s)) (log_record t a0 a1 act) < 3 \<longrightarrow>
      (\<exists>s'. fst (CloudStorage_log t a0 a1 act s w) = Inr s' \<and>
            cursor s' = (cursor s + 1) mod nat (maxEntries s) \<and>
            cursor s' < nat (maxEntries s) \<and>
            maxEntries s' = maxEntries s)"
  proof (intro impI, elim conjE)
    assume a: "1 \<le> maxEntries s" "cursor s < 2 ^ 32 - 1"
      and k: "failing_attempts w (slot_name (cursor s)) (log_record t a0 a1 act) < 3"
    let ?s' = "s\<lparr>current_entry := (current_entry s + 1) mod max_entries s\<rparr>"
    have "fst (CloudStorage_log t a0 a1 act s w) = Inr ?s'"
      using k a(1) by (simp add: CloudStorage_log_run advanced_Inr)
    moreover have "cursor ?s' = (cursor s + 1) mod nat (maxEntries s)"
      using a by (rule cursor_advanced)
    moreover have "cursor ?s' < nat (maxEntries s)"
      using a(1) by (rule cursor_advanced_in_range)
    moreover have "maxEntries ?s' = maxEntries s"
      by (simp add: maxEntries_def)
    ultimately show "\<exists>s'. fst (CloudStorage_log t a0 a1 act s w) = Inr s' \<and>
            cursor s' = (cursor s + 1) mod nat (maxEntries s) \<and>
            cursor s' < nat (maxEntries s) \<and>
            maxEntries s' = maxEntries s"
      by blast
  qed
  have drop: "failing_attempts w1 (slot_name (cursor s1)) (log_record t a0 a1 act) = 3 \<longrightarrow>
      fst (CloudStorage_log t a0 a1 act s1 w1) = Inr s1"
    by (simp add: CloudStorage_log_run)
  have stay: "cursor s3 < nat (maxEntries s3) \<and>
      fst (CloudStorage_log t a0 a1 act s3 w3) = Inr s4 \<longrightarrow> cursor s4 < nat (maxEntries s4)"
  proof (intro impI, elim conjE)
    assume c: "cursor s3 < nat (maxEntries s3)"
      and r: "fst (CloudStorage_log t a0 a1 act s3 w3) = Inr s4"
    have m: "1 \<le> maxEntries s3"
      using c by simp
    show "cursor s4 < nat (maxEntries s4)"
    proof (cases "failing_attempts w3 (slot_name (cursor s3)) (log_record t a0 a1 act) < 3")
      case True
      then have "s4 = s3\<lparr>current_entry := (current_entry s3 + 1) mod max_entries s3\<rparr>"
        using r m by (simp add: CloudStorage_log_run advanced_Inr)
      then show ?thesis
        using cursor_advanced_in_range [OF m] by (simp add: maxEntries_def)
    next
      case False
      then have "s4 = s3"
        using r by (simp add: CloudStorage_log_run)
      then show ?thesis using c by simp
    qed
  qed
  have round: "1 \<le> maxEntries s2 \<and> cursor s2 = 0 \<and>
    (\<forall>n p r. fb_set_reply (firebase w2) n p r = None) \<and>
    length xs = nat (maxEntries s2) + 1 \<longrightarrow>
      (\<exists>s'. fst (log_many xs s2 w2) = Inr s' \<and> cursor s' = 1 mod nat (maxEntries s2)) \<and>
      (\<exists>s'. fst (log_many (butlast xs) s2 w2) = Inr s' \<and> cursor s' = 0) \<and>
      map fst (write_attempts (calls (snd (log_many xs s2 w2)))) =
        map fst (write_attempts (calls w2)) @ map slot_name ([0..<nat (maxEntries s2)] @ [0]) \<and>
      distinct (map slot_name [0..<nat (maxEntries s2)])"
    using log_many_round [of s2 w2 xs] distinct_slot_names [of "nat (maxEntries s2)"]
    by blast
  have reach: "cursor s5 < 2 ^ 32 - 1 \<and> fst (CloudStorage_log t a0 a1 act s5 w5) = Inr s6 \<longrightarrow>
      cursor s6 < 2 ^ 32 - 1"
    using CloudStorage_log_cursor_below_last [of s5 t a0 a1 act w5 s6] by blast
  have upd: "cursor (fst (snd (update s7 w7))) = cursor s7"
    by (simp add: cursor_def update_current_entry)
  have new: "cursor CloudStorage_new < 2 ^ 32 - 1"
    by (simp add: cursor_new)
  have "current_entry CloudStorage_new = 0"
    by (simp add: CloudStorage_new_def)
  then show ?thesis
    using step drop stay new upd reach round by (intro conjI)
qed

theorem log_cursor_wraps_at_max_entries_witness:
  "1 \<le> maxEntries (CloudStorage_new\<lparr>max_entries := 3\<rparr>) \<and>
   cursor (CloudStorage_new\<lparr>max_entries := 3\<rparr>) = 0 \<and>
   cursor (CloudStorage_new\<lparr>max_entries := 3\<rparr>) < 2 ^ 32 - 1 \<and>
   cursor CloudStorage_new < 2 ^ 32 - 1 \<and>
   failing_attempts (reachable full_config)
     (slot_name (cursor (CloudStorage_new\<lparr>max_entries := 3\<rparr>)))
     (log_record 1700000000 512 300 True) < 3 \<and>
   failing_attempts unreachable (slot_name (cursor CloudStorage_new))
     (log_record 1700000000 512 300 True) = 3 \<and>
   (\<forall>n p r. fb_set_reply (firebase (reachable full_config)) n p r = None) \<and>
   length four_samples = nat (maxEntries (CloudStorage_new\<lparr>max_entries := 3\<rparr>)) + 1 \<and>
   fst (CloudStorage_log 1700000000 512 300 True CloudStorage_new unreachable) =
     Inr CloudStorage_new \<and>
   (\<exists>s'. fst (CloudStorage_log 1700000000 512 300 True (CloudStorage_new\<lparr>max_entries := 3\<rparr>)
                 (reachable full_config)) = Inr s' \<and> cursor s' = 1) \<and>
   (\<exists>s'. fst (log_many four_samples (CloudStorage_new\<lparr>max_entries := 3\<rparr>)
                 (reachable full_config)) = Inr s' \<and> cursor s' = 1) \<and>
   map fst (write_attempts (calls (snd (log_many four_samples
              (CloudStorage_new\<lparr>max_entries := 3\<rparr>) (reachable full_config))))) =
     [''log/0'', ''log/1'', ''log/2'', ''log/0'']"
proof -
  let ?s = "CloudStorage_new\<lparr>max_entries := 3\<rparr>"
  let ?w = "reachable full_config"
  have m: "maxEntries ?s = 3" and c: "cursor ?s = 0"
    by (simp_all add: maxEntries_def cursor_def CloudStorage_new_def)
  have slots: "map slot_name [0..<3] = [''log/0'', ''log/1'', ''log/2'']"
    "slot_name 0 = ''log/0''"
    by code_simp+
  have ok: "\<forall>n p r. fb_set_reply (firebase ?w) n p r = None"
    by (simp add: reachable_def world_of_def remote_def)
  have len: "length four_samples = nat (maxEntries ?s) + 1"
    by (simp add: m four_samples_def)
  note inst = log_cursor_wraps_at_max_entries
    [where s = ?s and w = ?w and t = 1700000000 and ?a0.0 = 512 and ?a1.0 = 300 and act = True
       and ?s1.0 = CloudStorage_new and ?w1.0 = unreachable
       and ?s3.0 = ?s and ?w3.0 = unreachable and ?s4.0 = ?s
       and ?s5.0 = CloudStorage_new and ?w5.0 = unreachable and ?s6.0 = CloudStorage_new
       and ?s7.0 = CloudStorage_new and ?w7.0 = unreachable
       and ?s2.0 = ?s and ?w2.0 = ?w and xs = four_samples]
  show ?thesis
    using inst ok len
    by (auto simp: m c slots failing_attempts_reachable failing_attempts_unreachable
        cursor_new calls_initial)
qed

text \<open>
  Over a refresh the range is not kept. On a store whose configuration holds
  \<open>maxEntries = 3\<close> and later \<open>maxEntries = 2\<close>: a refresh, two logged samples, and a
  second refresh leave the cursor at 2 with \<open>maxEntries\<close> at 2, at least 1 all along, and
  the next sample is written to slot 2. \<open>update\<close> stores the new capacity and never looks
  at the cursor.
\<close>

theorem cursor_leaves_range_when_refresh_lowers_max_entries:
  "fst first_refresh = True \<and>
   maxEntries (fst (snd first_refresh)) = 3 \<and>
   cursor (fst (snd first_refresh)) = 0 \<and>
   fst first_log = Inr ((fst (snd first_refresh))\<lparr>current_entry := 1\<rparr>) \<and>
   fst second_log = Inr ((fst (snd first_refresh))\<lparr>current_entry := 2\<rparr>) \<and>
   fst second_refresh = True \<and>
   1 \<le> maxEntries (fst (snd second_refresh)) \<and>
   maxEntries (fst (snd second_refresh)) = 2 \<and>
   cursor (fst (snd second_refresh)) = 2 \<and>
   \<not> cursor (fst (snd second_refresh)) < nat (maxEntries (fst (snd second_refresh))) \<and>
   map fst (write_attempts (calls (snd third_log))) = [''log/0'', ''log/1'', ''log/2'']"
proof -
  have slots: "slot_name 0 = ''log/0''" "slot_name 1 = ''log/1''" "slot_name 2 = ''log/2''"
    by (rule slot_name_examples)+
  have slot1: "slot_name (Suc 0) = ''log/1''"
    using slots(2) by simp
  show ?thesis
    by (simp add: shrinking_run slots slot1 maxEntries_def capacity_of_configs cursor_def
        current_entry_overwritten)
      (simp add: CloudStorage_new_def)
qed

end
